theory Spec2Isabelle
  imports Main "HOL-Library.Word"
begin

section \<open>The rocRAND C++ facade (library/include/rocrand.hpp)\<close>

text \<open>
  The header wraps the C interface of rocRAND (rocrand.h, rocrand_kernel.h) in classes:
  an exception class \<open>error\<close>, the engine classes \<open>rng_engine\<close>, \<open>prng_engine\<close> and the
  three named engines, and three distribution functors. Every member function calls one
  function of the C interface and throws \<open>error\<close> when the returned status is not
  \<open>ROCRAND_STATUS_SUCCESS\<close>.

  The C interface is not part of the header. It is a parameter of the model: a record
  holding the constants and functions the header uses, the functions acting on a backend
  state of an arbitrary type \<open>'b\<close>. The values of the element types \<open>float\<close> and \<open>double\<close>
  are never computed with by the header, only stored, compared and passed on, so they are
  type parameters \<open>'f\<close> and \<open>'d\<close>.
\<close>

subsection \<open>Types of the C interface\<close>

text \<open>\<open>rocrand_status\<close> is a C enumeration; a status is its integer value.\<close>

type_synonym rocrand_status = int

text \<open>\<open>rocrand_generator\<close> and \<open>hipStream_t\<close> are opaque pointers, an output buffer is an
  address, \<open>size_t\<close> counts elements, \<open>unsigned long long\<close> is a 64-bit word.\<close>

type_synonym rocrand_generator = nat
type_synonym hipStream_t = nat
type_synonym ptr = nat
type_synonym size_t = nat
type_synonym seed_type = "64 word"
type_synonym offset_type = "64 word"

text \<open>The enumerators of \<open>rocrand_rng_type\<close> that the header names.\<close>

datatype rocrand_rng_type =
    ROCRAND_RNG_PSEUDO_PHILOX4_32_10
  | ROCRAND_RNG_PSEUDO_XORWOW
  | ROCRAND_RNG_PSEUDO_MRG32K3A

record ('b, 'f, 'd) rocrand_h =
  ROCRAND_STATUS_SUCCESS :: rocrand_status
  ROCRAND_PHILOX4x32_DEFAULT_SEED :: seed_type
  ROCRAND_XORWOW_DEFAULT_SEED :: seed_type
  ROCRAND_MRG32K3A_DEFAULT_SEED :: seed_type
  rocrand_create_generator ::
    "rocrand_rng_type \<Rightarrow> 'b \<Rightarrow> (rocrand_status \<times> rocrand_generator) \<times> 'b"
  rocrand_destroy_generator :: "rocrand_generator \<Rightarrow> 'b \<Rightarrow> rocrand_status \<times> 'b"
  rocrand_set_stream :: "rocrand_generator \<Rightarrow> hipStream_t \<Rightarrow> 'b \<Rightarrow> rocrand_status \<times> 'b"
  rocrand_set_seed :: "rocrand_generator \<Rightarrow> seed_type \<Rightarrow> 'b \<Rightarrow> rocrand_status \<times> 'b"
  rocrand_set_offset :: "rocrand_generator \<Rightarrow> offset_type \<Rightarrow> 'b \<Rightarrow> rocrand_status \<times> 'b"
  rocrand_generate :: "rocrand_generator \<Rightarrow> ptr \<Rightarrow> size_t \<Rightarrow> 'b \<Rightarrow> rocrand_status \<times> 'b"
  rocrand_generate_uniform ::
    "rocrand_generator \<Rightarrow> ptr \<Rightarrow> size_t \<Rightarrow> 'b \<Rightarrow> rocrand_status \<times> 'b"
  rocrand_generate_uniform_double ::
    "rocrand_generator \<Rightarrow> ptr \<Rightarrow> size_t \<Rightarrow> 'b \<Rightarrow> rocrand_status \<times> 'b"
  rocrand_generate_normal ::
    "rocrand_generator \<Rightarrow> ptr \<Rightarrow> size_t \<Rightarrow> 'f \<Rightarrow> 'f \<Rightarrow> 'b \<Rightarrow> rocrand_status \<times> 'b"
  rocrand_generate_normal_double ::
    "rocrand_generator \<Rightarrow> ptr \<Rightarrow> size_t \<Rightarrow> 'd \<Rightarrow> 'd \<Rightarrow> 'b \<Rightarrow> rocrand_status \<times> 'b"

text \<open>
  \<open>rocrand_create_generator\<close> writes the new handle through its first argument; the
  model returns, beside the status, the value \<open>m_generator\<close> holds after the call.
\<close>

subsection \<open>The world: backend state and the calls made so far\<close>

datatype ('f, 'd) call =
    Create_generator rocrand_rng_type
  | Destroy_generator rocrand_generator
  | Set_stream rocrand_generator hipStream_t
  | Set_seed rocrand_generator seed_type
  | Set_offset rocrand_generator offset_type
  | Generate rocrand_generator ptr size_t
  | Generate_uniform rocrand_generator ptr size_t
  | Generate_uniform_double rocrand_generator ptr size_t
  | Generate_normal rocrand_generator ptr size_t 'f 'f
  | Generate_normal_double rocrand_generator ptr size_t 'd 'd

record ('b, 'f, 'd) world =
  bstate :: 'b
  trace :: "('f, 'd) call list"

text \<open>Calling a function of the C interface: the backend state advances and the call is
  appended to the trace.\<close>

definition issue ::
  "('f, 'd) call \<Rightarrow> ('b \<Rightarrow> 'r \<times> 'b) \<Rightarrow> ('b, 'f, 'd) world \<Rightarrow> 'r \<times> ('b, 'f, 'd) world" where
  "issue c f w =
     (case f (bstate w) of (r, b') \<Rightarrow> (r, \<lparr>bstate = b', trace = trace w @ [c]\<rparr>))"

subsection \<open>class error\<close>

text \<open>
  \<open>s << error\<close> writes the enumeration value as a decimal integer (a fresh
  \<open>std::stringstream\<close>, default formatting).
\<close>

definition digit_char :: "nat \<Rightarrow> char" where
  "digit_char n = char_of (48 + n)"

fun dec_digits :: "nat \<Rightarrow> string" where
  "dec_digits n =
     (if n < 10 then [digit_char n] else dec_digits (n div 10) @ [digit_char (n mod 10)])"

declare dec_digits.simps [simp del]

definition put_int :: "int \<Rightarrow> string" where
  "put_int i = (if i < 0 then CHR ''-'' # dec_digits (nat (- i)) else dec_digits (nat i))"

text \<open>The number a string of decimal digits denotes, to state what \<open>dec_digits\<close>
  writes.\<close>

definition digit_value :: "char \<Rightarrow> nat" where
  "digit_value c = of_char c - 48"

definition dec_value :: "string \<Rightarrow> nat" where
  "dec_value cs = foldl (\<lambda>a c. 10 * a + digit_value c) 0 cs"

record error =
  m_error :: rocrand_status
  m_error_string :: string

text \<open>The \<open>switch\<close> of \<open>to_string\<close> has the \<open>default\<close> label only.\<close>

definition to_string :: "rocrand_status \<Rightarrow> string" where
  "to_string error = ''Unknown rocRAND Error ('' @ put_int error @ '')''"

definition error_ctor :: "rocrand_status \<Rightarrow> error" where
  "error_ctor error = \<lparr>m_error = error, m_error_string = to_string error\<rparr>"

definition error_code :: "error \<Rightarrow> rocrand_status" where
  "error_code this = m_error this"

definition error_string :: "error \<Rightarrow> string" where
  "error_string this = m_error_string this"

text \<open>\<open>what\<close> returns the characters of \<open>m_error_string\<close>.\<close>

definition what :: "error \<Rightarrow> string" where
  "what this = m_error_string this"

subsection \<open>Outcomes of a member function\<close>

text \<open>
  A call returns, throws an \<open>error\<close>, or ends in \<open>std::terminate\<close>: the header requires
  C++11, where a destructor without an exception specification is \<open>noexcept\<close> (here no
  base or member has a throwing destructor), and an exception that leaves such a function
  calls \<open>std::terminate\<close>.
\<close>

datatype 'a outcome = Returned 'a | Thrown error | Terminated

text \<open>The line that ends every member function:
  \<open>if(status != ROCRAND_STATUS_SUCCESS) throw rocrand_cpp::error(status);\<close>\<close>

definition throw_unless_success :: "('b, 'f, 'd) rocrand_h \<Rightarrow> rocrand_status \<Rightarrow> unit outcome" where
  "throw_unless_success bk status =
     (if status \<noteq> ROCRAND_STATUS_SUCCESS bk then Thrown (error_ctor status) else Returned ())"

text \<open>The code of the error a call threw, if it threw.\<close>

definition thrown_code :: "'a outcome \<Rightarrow> rocrand_status option" where
  "thrown_code r = (case r of Thrown e \<Rightarrow> Some (error_code e) | _ \<Rightarrow> None)"

text \<open>A status is propagated by a call: success lets the call return, any other status
  is the code of the error the call throws.\<close>

definition propagates :: "('b, 'f, 'd) rocrand_h \<Rightarrow> rocrand_status \<Rightarrow> 'a outcome \<Rightarrow> bool" where
  "propagates bk status r =
     (if status = ROCRAND_STATUS_SUCCESS bk then (case r of Returned x \<Rightarrow> True | _ \<Rightarrow> False)
      else thrown_code r = Some status)"

subsection \<open>detail::rng_engine\<close>

text \<open>The only data member is \<open>m_generator\<close>. The derived classes add none, so an object of
  any engine class is a value of this record.\<close>

record rng_engine =
  m_generator :: rocrand_generator

text \<open>\<open>rng_engine()\<close>: when it throws, no object exists.\<close>

definition rng_engine_ctor ::
  "('b, 'f, 'd) rocrand_h \<Rightarrow> rocrand_rng_type \<Rightarrow> ('b, 'f, 'd) world
     \<Rightarrow> rng_engine outcome \<times> ('b, 'f, 'd) world" where
  "rng_engine_ctor bk GeneratorType w =
     (case issue (Create_generator GeneratorType)
                 (rocrand_create_generator bk GeneratorType) w of
        ((status, g), w') \<Rightarrow>
          if status \<noteq> ROCRAND_STATUS_SUCCESS bk then (Thrown (error_ctor status), w')
          else (Returned \<lparr>m_generator = g\<rparr>, w'))"

text \<open>The statements of \<open>~rng_engine()\<close>, as written.\<close>

definition rng_engine_dtor_body ::
  "('b, 'f, 'd) rocrand_h \<Rightarrow> rng_engine \<Rightarrow> ('b, 'f, 'd) world
     \<Rightarrow> unit outcome \<times> ('b, 'f, 'd) world" where
  "rng_engine_dtor_body bk this w =
     (case issue (Destroy_generator (m_generator this))
                 (rocrand_destroy_generator bk (m_generator this)) w of
        (status, w') \<Rightarrow> (throw_unless_success bk status, w'))"

text \<open>An exception leaving a \<open>noexcept\<close> function calls \<open>std::terminate\<close>.\<close>

definition noexcept :: "'a outcome \<times> 'w \<Rightarrow> 'a outcome \<times> 'w" where
  "noexcept r = (case r of (Thrown e, w) \<Rightarrow> (Terminated, w) | _ \<Rightarrow> r)"

text \<open>Destroying an engine object runs \<open>~rng_engine()\<close>, which is implicitly
  \<open>noexcept\<close>; \<open>~prng_engine()\<close> and the destructors of the named engines are empty.\<close>

definition rng_engine_dtor ::
  "('b, 'f, 'd) rocrand_h \<Rightarrow> rng_engine \<Rightarrow> ('b, 'f, 'd) world
     \<Rightarrow> unit outcome \<times> ('b, 'f, 'd) world" where
  "rng_engine_dtor bk this w = noexcept (rng_engine_dtor_body bk this w)"

definition rng_engine_stream ::
  "('b, 'f, 'd) rocrand_h \<Rightarrow> rng_engine \<Rightarrow> hipStream_t \<Rightarrow> ('b, 'f, 'd) world
     \<Rightarrow> unit outcome \<times> ('b, 'f, 'd) world" where
  "rng_engine_stream bk this v w =
     (case issue (Set_stream (m_generator this) v)
                 (rocrand_set_stream bk (m_generator this) v) w of
        (status, w') \<Rightarrow> (throw_unless_success bk status, w'))"

subsection \<open>detail::prng_engine\<close>

definition prng_engine_seed ::
  "('b, 'f, 'd) rocrand_h \<Rightarrow> rng_engine \<Rightarrow> seed_type \<Rightarrow> ('b, 'f, 'd) world
     \<Rightarrow> unit outcome \<times> ('b, 'f, 'd) world" where
  "prng_engine_seed bk this v w =
     (case issue (Set_seed (m_generator this) v)
                 (rocrand_set_seed bk (m_generator this) v) w of
        (status, w') \<Rightarrow> (throw_unless_success bk status, w'))"

definition prng_engine_offset ::
  "('b, 'f, 'd) rocrand_h \<Rightarrow> rng_engine \<Rightarrow> offset_type \<Rightarrow> ('b, 'f, 'd) world
     \<Rightarrow> unit outcome \<times> ('b, 'f, 'd) world" where
  "prng_engine_offset bk this v w =
     (case issue (Set_offset (m_generator this) v)
                 (rocrand_set_offset bk (m_generator this) v) w of
        (status, w') \<Rightarrow> (throw_unless_success bk status, w'))"

text \<open>The body of the constructor, run once the base class is constructed:
  \<open>this->seed(seed_value); if(offset_value > 0) { this->offset(offset_value); }\<close>\<close>

definition prng_engine_ctor_body ::
  "('b, 'f, 'd) rocrand_h \<Rightarrow> rng_engine \<Rightarrow> seed_type \<Rightarrow> offset_type \<Rightarrow> ('b, 'f, 'd) world
     \<Rightarrow> unit outcome \<times> ('b, 'f, 'd) world" where
  "prng_engine_ctor_body bk this seed_value offset_value w =
     (case prng_engine_seed bk this seed_value w of
        (Returned u, w1) \<Rightarrow>
          if offset_value > 0 then prng_engine_offset bk this offset_value w1
          else (Returned (), w1)
      | (Thrown e, w1) \<Rightarrow> (Thrown e, w1)
      | (Terminated, w1) \<Rightarrow> (Terminated, w1))"

text \<open>
  \<open>prng_engine(seed_value, offset_value) : base_type() { ... }\<close>, the exception being
  caught by some caller. When \<open>base_type()\<close> throws, nothing has been constructed and no
  destructor runs. When the body throws, the constructed base class subobject is
  destroyed while the stack is unwound; an exception leaving that destructor ends in
  \<open>std::terminate\<close>.
\<close>

definition prng_engine_ctor ::
  "('b, 'f, 'd) rocrand_h \<Rightarrow> rocrand_rng_type \<Rightarrow> seed_type \<Rightarrow> offset_type
     \<Rightarrow> ('b, 'f, 'd) world \<Rightarrow> rng_engine outcome \<times> ('b, 'f, 'd) world" where
  "prng_engine_ctor bk GeneratorType seed_value offset_value w =
     (case rng_engine_ctor bk GeneratorType w of
        (Returned this, w1) \<Rightarrow>
          (case prng_engine_ctor_body bk this seed_value offset_value w1 of
             (Returned u, w2) \<Rightarrow> (Returned this, w2)
           | (Thrown e, w2) \<Rightarrow>
               (case rng_engine_dtor bk this w2 of
                  (Returned u, w3) \<Rightarrow> (Thrown e, w3)
                | (Thrown e', w3) \<Rightarrow> (Terminated, w3)
                | (Terminated, w3) \<Rightarrow> (Terminated, w3))
           | (Terminated, w2) \<Rightarrow> (Terminated, w2))
      | (Thrown e, w1) \<Rightarrow> (Thrown e, w1)
      | (Terminated, w1) \<Rightarrow> (Terminated, w1))"

text \<open>The three ways to call a constructor declared as
  \<open>prng_engine(seed_type seed_value = DefaultSeed, offset_type offset_value = 0)\<close>.\<close>

datatype ctor_args =
    No_arguments
  | Seed seed_type
  | Seed_offset seed_type offset_type

definition seed_argument :: "seed_type \<Rightarrow> ctor_args \<Rightarrow> seed_type" where
  "seed_argument DefaultSeed args =
     (case args of No_arguments \<Rightarrow> DefaultSeed | Seed s \<Rightarrow> s | Seed_offset s v \<Rightarrow> s)"

definition offset_argument :: "ctor_args \<Rightarrow> offset_type" where
  "offset_argument args =
     (case args of No_arguments \<Rightarrow> 0 | Seed s \<Rightarrow> 0 | Seed_offset s v \<Rightarrow> v)"

definition prng_engine_new ::
  "('b, 'f, 'd) rocrand_h \<Rightarrow> rocrand_rng_type \<Rightarrow> seed_type \<Rightarrow> ctor_args
     \<Rightarrow> ('b, 'f, 'd) world \<Rightarrow> rng_engine outcome \<times> ('b, 'f, 'd) world" where
  "prng_engine_new bk GeneratorType DefaultSeed args w =
     prng_engine_ctor bk GeneratorType (seed_argument DefaultSeed args) (offset_argument args) w"

subsection \<open>The named engines\<close>

text \<open>Each class instantiates \<open>prng_engine\<close> and inherits its constructors.\<close>

definition philox4x32_10_engine ::
  "('b, 'f, 'd) rocrand_h \<Rightarrow> ctor_args \<Rightarrow> ('b, 'f, 'd) world
     \<Rightarrow> rng_engine outcome \<times> ('b, 'f, 'd) world" where
  "philox4x32_10_engine bk args w =
     prng_engine_new bk ROCRAND_RNG_PSEUDO_PHILOX4_32_10
       (ROCRAND_PHILOX4x32_DEFAULT_SEED bk) args w"

definition xorwow_engine ::
  "('b, 'f, 'd) rocrand_h \<Rightarrow> ctor_args \<Rightarrow> ('b, 'f, 'd) world
     \<Rightarrow> rng_engine outcome \<times> ('b, 'f, 'd) world" where
  "xorwow_engine bk args w =
     prng_engine_new bk ROCRAND_RNG_PSEUDO_XORWOW (ROCRAND_XORWOW_DEFAULT_SEED bk) args w"

definition mrg32k3a_engine ::
  "('b, 'f, 'd) rocrand_h \<Rightarrow> ctor_args \<Rightarrow> ('b, 'f, 'd) world
     \<Rightarrow> rng_engine outcome \<times> ('b, 'f, 'd) world" where
  "mrg32k3a_engine bk args w =
     prng_engine_new bk ROCRAND_RNG_PSEUDO_MRG32K3A (ROCRAND_MRG32K3A_DEFAULT_SEED bk) args w"

text \<open>The engine classes, to state a property of all three.\<close>

datatype engine_class = Philox4x32_10_engine | Xorwow_engine | Mrg32k3a_engine

definition engine_new ::
  "engine_class \<Rightarrow> ('b, 'f, 'd) rocrand_h \<Rightarrow> ctor_args \<Rightarrow> ('b, 'f, 'd) world
     \<Rightarrow> rng_engine outcome \<times> ('b, 'f, 'd) world" where
  "engine_new c =
     (case c of Philox4x32_10_engine \<Rightarrow> philox4x32_10_engine
      | Xorwow_engine \<Rightarrow> xorwow_engine
      | Mrg32k3a_engine \<Rightarrow> mrg32k3a_engine)"

definition engine_rng_type :: "engine_class \<Rightarrow> rocrand_rng_type" where
  "engine_rng_type c =
     (case c of Philox4x32_10_engine \<Rightarrow> ROCRAND_RNG_PSEUDO_PHILOX4_32_10
      | Xorwow_engine \<Rightarrow> ROCRAND_RNG_PSEUDO_XORWOW
      | Mrg32k3a_engine \<Rightarrow> ROCRAND_RNG_PSEUDO_MRG32K3A)"

definition engine_default_seed :: "engine_class \<Rightarrow> ('b, 'f, 'd) rocrand_h \<Rightarrow> seed_type" where
  "engine_default_seed c bk =
     (case c of Philox4x32_10_engine \<Rightarrow> ROCRAND_PHILOX4x32_DEFAULT_SEED bk
      | Xorwow_engine \<Rightarrow> ROCRAND_XORWOW_DEFAULT_SEED bk
      | Mrg32k3a_engine \<Rightarrow> ROCRAND_MRG32K3A_DEFAULT_SEED bk)"

subsection \<open>uniform_int_distribution\<close>

text \<open>The class has no data member. The constructor holds a \<open>static_assert\<close> only, which
  the compiler evaluates; nothing of it runs.\<close>

datatype uniform_int_distribution = Uniform_int_distribution

text \<open>\<open>void reset() { }\<close>: the outcome carries the object after the call.\<close>

definition uniform_int_distribution_reset ::
  "uniform_int_distribution \<Rightarrow> ('b, 'f, 'd) world
     \<Rightarrow> uniform_int_distribution outcome \<times> ('b, 'f, 'd) world" where
  "uniform_int_distribution_reset this w = (Returned this, w)"

text \<open>\<open>operator()(Generator& g, IntType * output, size_t size)\<close>\<close>

definition uniform_int_distribution_apply ::
  "('b, 'f, 'd) rocrand_h \<Rightarrow> uniform_int_distribution \<Rightarrow> rng_engine \<Rightarrow> ptr \<Rightarrow> size_t
     \<Rightarrow> ('b, 'f, 'd) world \<Rightarrow> unit outcome \<times> ('b, 'f, 'd) world" where
  "uniform_int_distribution_apply bk this g output n w =
     (case issue (Generate (m_generator g) output n)
                 (rocrand_generate bk (m_generator g) output n) w of
        (status, w') \<Rightarrow> (throw_unless_success bk status, w'))"

subsection \<open>uniform_real_distribution\<close>

datatype uniform_real_distribution = Uniform_real_distribution

definition uniform_real_distribution_reset ::
  "uniform_real_distribution \<Rightarrow> ('b, 'f, 'd) world
     \<Rightarrow> uniform_real_distribution outcome \<times> ('b, 'f, 'd) world" where
  "uniform_real_distribution_reset this w = (Returned this, w)"

text \<open>The two overloads of \<open>generate\<close>; the type of \<open>output\<close> selects one when the class is
  instantiated.\<close>

definition uniform_real_distribution_generate_float ::
  "('b, 'f, 'd) rocrand_h \<Rightarrow> uniform_real_distribution \<Rightarrow> rng_engine \<Rightarrow> ptr \<Rightarrow> size_t
     \<Rightarrow> ('b, 'f, 'd) world \<Rightarrow> rocrand_status \<times> ('b, 'f, 'd) world" where
  "uniform_real_distribution_generate_float bk this g output n =
     issue (Generate_uniform (m_generator g) output n)
           (rocrand_generate_uniform bk (m_generator g) output n)"

definition uniform_real_distribution_generate_double ::
  "('b, 'f, 'd) rocrand_h \<Rightarrow> uniform_real_distribution \<Rightarrow> rng_engine \<Rightarrow> ptr \<Rightarrow> size_t
     \<Rightarrow> ('b, 'f, 'd) world \<Rightarrow> rocrand_status \<times> ('b, 'f, 'd) world" where
  "uniform_real_distribution_generate_double bk this g output n =
     issue (Generate_uniform_double (m_generator g) output n)
           (rocrand_generate_uniform_double bk (m_generator g) output n)"

text \<open>\<open>operator()\<close> of \<open>uniform_real_distribution<float>\<close> and of
  \<open>uniform_real_distribution<double>\<close>.\<close>

definition uniform_real_distribution_float_apply ::
  "('b, 'f, 'd) rocrand_h \<Rightarrow> uniform_real_distribution \<Rightarrow> rng_engine \<Rightarrow> ptr \<Rightarrow> size_t
     \<Rightarrow> ('b, 'f, 'd) world \<Rightarrow> unit outcome \<times> ('b, 'f, 'd) world" where
  "uniform_real_distribution_float_apply bk this g output n w =
     (case uniform_real_distribution_generate_float bk this g output n w of
        (status, w') \<Rightarrow> (throw_unless_success bk status, w'))"

definition uniform_real_distribution_double_apply ::
  "('b, 'f, 'd) rocrand_h \<Rightarrow> uniform_real_distribution \<Rightarrow> rng_engine \<Rightarrow> ptr \<Rightarrow> size_t
     \<Rightarrow> ('b, 'f, 'd) world \<Rightarrow> unit outcome \<times> ('b, 'f, 'd) world" where
  "uniform_real_distribution_double_apply bk this g output n w =
     (case uniform_real_distribution_generate_double bk this g output n w of
        (status, w') \<Rightarrow> (throw_unless_success bk status, w'))"

subsection \<open>normal_distribution\<close>

text \<open>\<open>normal_distribution<RealType>::param_type\<close>, for an element type \<open>'r\<close>.\<close>

record 'r param_type =
  m_mean :: 'r
  m_stddev :: 'r

definition param_type_ctor :: "'r \<Rightarrow> 'r \<Rightarrow> 'r param_type" where
  "param_type_ctor mean stddev = \<lparr>m_mean = mean, m_stddev = stddev\<rparr>"

definition param_type_mean :: "'r param_type \<Rightarrow> 'r" where
  "param_type_mean this = m_mean this"

definition param_type_stddev :: "'r param_type \<Rightarrow> 'r" where
  "param_type_stddev this = m_stddev this"

text \<open>
  \<open>operator==\<close> and \<open>operator!=\<close>. The comparison \<open>==\<close> of two \<open>RealType\<close> values is the
  language's; it is the parameter \<open>real_eq\<close> (for \<open>float\<close> and \<open>double\<close> a NaN differs
  from itself and the two zeros are equal).
\<close>

definition param_type_eq :: "('r \<Rightarrow> 'r \<Rightarrow> bool) \<Rightarrow> 'r param_type \<Rightarrow> 'r param_type \<Rightarrow> bool" where
  "param_type_eq real_eq this other =
     (real_eq (m_mean this) (m_mean other) \<and> real_eq (m_stddev this) (m_stddev other))"

definition param_type_neq :: "('r \<Rightarrow> 'r \<Rightarrow> bool) \<Rightarrow> 'r param_type \<Rightarrow> 'r param_type \<Rightarrow> bool" where
  "param_type_neq real_eq this other = (\<not> param_type_eq real_eq this other)"

record 'r normal_distribution =
  m_params :: "'r param_type"

text \<open>\<open>normal_distribution(mean, stddev)\<close>, both arguments given.\<close>

definition normal_distribution_ctor :: "'r \<Rightarrow> 'r \<Rightarrow> 'r normal_distribution" where
  "normal_distribution_ctor mean stddev = \<lparr>m_params = param_type_ctor mean stddev\<rparr>"

definition normal_distribution_reset ::
  "'r normal_distribution \<Rightarrow> ('b, 'f, 'd) world
     \<Rightarrow> 'r normal_distribution outcome \<times> ('b, 'f, 'd) world" where
  "normal_distribution_reset this w = (Returned this, w)"

definition normal_distribution_mean :: "'r normal_distribution \<Rightarrow> 'r" where
  "normal_distribution_mean this = param_type_mean (m_params this)"

definition normal_distribution_stddev :: "'r normal_distribution \<Rightarrow> 'r" where
  "normal_distribution_stddev this = param_type_stddev (m_params this)"

text \<open>\<open>param_type param() const\<close> and \<open>void param(const param_type& params)\<close>\<close>

definition normal_distribution_param :: "'r normal_distribution \<Rightarrow> 'r param_type" where
  "normal_distribution_param this = m_params this"

definition normal_distribution_set_param ::
  "'r normal_distribution \<Rightarrow> 'r param_type \<Rightarrow> 'r normal_distribution" where
  "normal_distribution_set_param this params = this\<lparr>m_params := params\<rparr>"

definition normal_distribution_generate_float ::
  "('b, 'f, 'd) rocrand_h \<Rightarrow> 'f normal_distribution \<Rightarrow> rng_engine \<Rightarrow> ptr \<Rightarrow> size_t
     \<Rightarrow> ('b, 'f, 'd) world \<Rightarrow> rocrand_status \<times> ('b, 'f, 'd) world" where
  "normal_distribution_generate_float bk this g output n =
     issue (Generate_normal (m_generator g) output n
              (normal_distribution_mean this) (normal_distribution_stddev this))
           (rocrand_generate_normal bk (m_generator g) output n
              (normal_distribution_mean this) (normal_distribution_stddev this))"

definition normal_distribution_generate_double ::
  "('b, 'f, 'd) rocrand_h \<Rightarrow> 'd normal_distribution \<Rightarrow> rng_engine \<Rightarrow> ptr \<Rightarrow> size_t
     \<Rightarrow> ('b, 'f, 'd) world \<Rightarrow> rocrand_status \<times> ('b, 'f, 'd) world" where
  "normal_distribution_generate_double bk this g output n =
     issue (Generate_normal_double (m_generator g) output n
              (normal_distribution_mean this) (normal_distribution_stddev this))
           (rocrand_generate_normal_double bk (m_generator g) output n
              (normal_distribution_mean this) (normal_distribution_stddev this))"

text \<open>\<open>operator()\<close> of \<open>normal_distribution<float>\<close> and of \<open>normal_distribution<double>\<close>.\<close>

definition normal_distribution_float_apply ::
  "('b, 'f, 'd) rocrand_h \<Rightarrow> 'f normal_distribution \<Rightarrow> rng_engine \<Rightarrow> ptr \<Rightarrow> size_t
     \<Rightarrow> ('b, 'f, 'd) world \<Rightarrow> unit outcome \<times> ('b, 'f, 'd) world" where
  "normal_distribution_float_apply bk this g output n w =
     (case normal_distribution_generate_float bk this g output n w of
        (status, w') \<Rightarrow> (throw_unless_success bk status, w'))"

definition normal_distribution_double_apply ::
  "('b, 'f, 'd) rocrand_h \<Rightarrow> 'd normal_distribution \<Rightarrow> rng_engine \<Rightarrow> ptr \<Rightarrow> size_t
     \<Rightarrow> ('b, 'f, 'd) world \<Rightarrow> unit outcome \<times> ('b, 'f, 'd) world" where
  "normal_distribution_double_apply bk this g output n w =
     (case normal_distribution_generate_double bk this g output n w of
        (status, w') \<Rightarrow> (throw_unless_success bk status, w'))"

subsection \<open>Reading a trace\<close>

text \<open>The calls a member function added to the trace.\<close>

definition new_calls :: "('b, 'f, 'd) world \<Rightarrow> ('b, 'f, 'd) world \<Rightarrow> ('f, 'd) call list" where
  "new_calls w w' = drop (length (trace w)) (trace w')"

fun seed_calls :: "('f, 'd) call list \<Rightarrow> (rocrand_generator \<times> seed_type) list" where
  "seed_calls [] = []"
| "seed_calls (Set_seed g v # cs) = (g, v) # seed_calls cs"
| "seed_calls (c # cs) = seed_calls cs"

fun offset_calls :: "('f, 'd) call list \<Rightarrow> (rocrand_generator \<times> offset_type) list" where
  "offset_calls [] = []"
| "offset_calls (Set_offset g v # cs) = (g, v) # offset_calls cs"
| "offset_calls (c # cs) = offset_calls cs"

fun destroy_calls :: "('f, 'd) call list \<Rightarrow> rocrand_generator list" where
  "destroy_calls [] = []"
| "destroy_calls (Destroy_generator g # cs) = g # destroy_calls cs"
| "destroy_calls (c # cs) = destroy_calls cs"

subsection \<open>A backend for examples\<close>

text \<open>
  A backend whose state is the list of the statuses it will return, one per call, and
  success (0) once the list is used up. Every created handle is 7. The element types are
  integers.
\<close>

definition reply :: "rocrand_status list \<Rightarrow> rocrand_status \<times> rocrand_status list" where
  "reply b = (case b of [] \<Rightarrow> (0, []) | s # ss \<Rightarrow> (s, ss))"

definition scripted :: "(rocrand_status list, int, int) rocrand_h" where
  "scripted =
     \<lparr>ROCRAND_STATUS_SUCCESS = 0,
      ROCRAND_PHILOX4x32_DEFAULT_SEED = 11,
      ROCRAND_XORWOW_DEFAULT_SEED = 22,
      ROCRAND_MRG32K3A_DEFAULT_SEED = 33,
      rocrand_create_generator = (\<lambda>t b. case reply b of (s, b') \<Rightarrow> ((s, 7), b')),
      rocrand_destroy_generator = (\<lambda>g. reply),
      rocrand_set_stream = (\<lambda>g v. reply),
      rocrand_set_seed = (\<lambda>g v. reply),
      rocrand_set_offset = (\<lambda>g v. reply),
      rocrand_generate = (\<lambda>g p n. reply),
      rocrand_generate_uniform = (\<lambda>g p n. reply),
      rocrand_generate_uniform_double = (\<lambda>g p n. reply),
      rocrand_generate_normal = (\<lambda>g p n m s. reply),
      rocrand_generate_normal_double = (\<lambda>g p n m s. reply)\<rparr>"

definition start :: "rocrand_status list \<Rightarrow> (rocrand_status list, int, int) world" where
  "start b = \<lparr>bstate = b, trace = []\<rparr>"

section \<open>Properties\<close>

subsection \<open>Basic facts\<close>

lemma issue_eq:
  "issue c f w = (fst (f (bstate w)), \<lparr>bstate = snd (f (bstate w)), trace = trace w @ [c]\<rparr>)"
  by (simp add: issue_def split: prod.splits)

lemma error_code_error_ctor: "error_code (error_ctor status) = status"
  by (simp add: error_code_def error_ctor_def)

lemma propagates_throw_unless_success: "propagates bk status (throw_unless_success bk status)"
  by (simp add: propagates_def throw_unless_success_def thrown_code_def error_code_error_ctor)

lemma new_calls_append: "trace w' = trace w @ cs \<Longrightarrow> new_calls w w' = cs"
  by (simp add: new_calls_def)

lemma rng_engine_ctor_eq:
  assumes "rocrand_create_generator bk t (bstate w) = ((s0, g), b1)"
  shows "rng_engine_ctor bk t w =
           (if s0 \<noteq> ROCRAND_STATUS_SUCCESS bk then Thrown (error_ctor s0)
            else Returned \<lparr>m_generator = g\<rparr>,
            \<lparr>bstate = b1, trace = trace w @ [Create_generator t]\<rparr>)"
  using assms by (simp add: rng_engine_ctor_def issue_eq)

lemma rng_engine_dtor_body_eq:
  assumes "rocrand_destroy_generator bk (m_generator this) (bstate w) = (s, b')"
  shows "rng_engine_dtor_body bk this w =
           (throw_unless_success bk s,
            \<lparr>bstate = b', trace = trace w @ [Destroy_generator (m_generator this)]\<rparr>)"
  using assms by (simp add: rng_engine_dtor_body_def issue_eq)

lemma rng_engine_dtor_eq:
  assumes "rocrand_destroy_generator bk (m_generator this) (bstate w) = (s, b')"
  shows "rng_engine_dtor bk this w =
           (if s = ROCRAND_STATUS_SUCCESS bk then Returned () else Terminated,
            \<lparr>bstate = b', trace = trace w @ [Destroy_generator (m_generator this)]\<rparr>)"
  using assms
  by (simp add: rng_engine_dtor_def rng_engine_dtor_body_eq noexcept_def throw_unless_success_def)

lemma prng_engine_seed_eq:
  assumes "rocrand_set_seed bk (m_generator this) v (bstate w) = (s, b')"
  shows "prng_engine_seed bk this v w =
           (throw_unless_success bk s,
            \<lparr>bstate = b', trace = trace w @ [Set_seed (m_generator this) v]\<rparr>)"
  using assms by (simp add: prng_engine_seed_def issue_eq)

lemma prng_engine_offset_eq:
  assumes "rocrand_set_offset bk (m_generator this) v (bstate w) = (s, b')"
  shows "prng_engine_offset bk this v w =
           (throw_unless_success bk s,
            \<lparr>bstate = b', trace = trace w @ [Set_offset (m_generator this) v]\<rparr>)"
  using assms by (simp add: prng_engine_offset_def issue_eq)

subsection \<open>The code in the message is its decimal numeral\<close>

lemma digit_value_digit_char: "n < 10 \<Longrightarrow> digit_value (digit_char n) = n"
  by (simp add: digit_value_def digit_char_def)

lemma dec_value_dec_digits: "dec_value (dec_digits n) = n"
proof (induction n rule: dec_digits.induct)
  case (1 n)
  show ?case
  proof (cases "n < 10")
    case True
    then show ?thesis
      by (subst dec_digits.simps) (simp add: dec_value_def digit_value_digit_char)
  next
    case False
    with 1 have "dec_value (dec_digits (n div 10)) = n div 10" by simp
    with False show ?thesis
      by (subst dec_digits.simps) (simp add: dec_value_def digit_value_digit_char)
  qed
qed

lemma dec_value_put_int: "0 \<le> i \<Longrightarrow> int (dec_value (put_int i)) = i"
  by (simp add: put_int_def dec_value_dec_digits)

lemma dec_digits_not_Nil: "dec_digits n \<noteq> []"
  by (subst dec_digits.simps) simp

lemma digit_char_table: "map digit_char [0, 1, 2, 3, 4, 5, 6, 7, 8, 9] = ''0123456789''"
  by code_simp

lemma digit_char_in_digits: "n < 10 \<Longrightarrow> digit_char n \<in> set ''0123456789''"
proof -
  assume "n < 10"
  then have "n \<in> set [0, 1, 2, 3, 4, 5, 6, 7, 8, 9]" by auto
  then have "digit_char n \<in> set (map digit_char [0, 1, 2, 3, 4, 5, 6, 7, 8, 9])"
    unfolding set_map by (rule imageI)
  then show ?thesis by (simp only: digit_char_table)
qed

lemma dec_digits_are_digits: "set (dec_digits n) \<subseteq> set ''0123456789''"
proof (induction n rule: dec_digits.induct)
  case (1 n)
  show ?case
  proof (cases "n < 10")
    case True
    then show ?thesis
      using digit_char_in_digits [of n] by (subst dec_digits.simps) simp
  next
    case False
    with 1 have "set (dec_digits (n div 10)) \<subseteq> set ''0123456789''" by simp
    moreover have "digit_char (n mod 10) \<in> set ''0123456789''"
      by (rule digit_char_in_digits) simp
    ultimately show ?thesis
      using False by (subst dec_digits.simps) simp
  qed
qed

lemma digit_char_eq_zero: "n < 10 \<Longrightarrow> digit_char n = CHR ''0'' \<Longrightarrow> n = 0"
  using digit_value_digit_char [of n] by (simp add: digit_value_def)

lemma dec_digits_no_leading_zero: "0 < n \<Longrightarrow> hd (dec_digits n) \<noteq> CHR ''0''"
proof (induction n rule: dec_digits.induct)
  case (1 n)
  show ?case
  proof (cases "n < 10")
    case True
    with 1(2) show ?thesis
      using digit_char_eq_zero [of n] by (subst dec_digits.simps) auto
  next
    case False
    then have "0 < n div 10" by simp
    with 1 False have "hd (dec_digits (n div 10)) \<noteq> CHR ''0''" by simp
    with False show ?thesis
      by (subst dec_digits.simps) (simp add: dec_digits_not_Nil)
  qed
qed

lemma dec_digits_no_minus: "dec_digits n \<noteq> CHR ''-'' # cs"
proof
  assume "dec_digits n = CHR ''-'' # cs"
  then have "CHR ''-'' \<in> set (dec_digits n)" by simp
  with dec_digits_are_digits [of n] show False by auto
qed

lemma no_minus_dec_digits: "CHR ''-'' # cs \<noteq> dec_digits n"
  using dec_digits_no_minus [of n cs] by (rule not_sym)

lemma dec_digits_inj: "dec_digits m = dec_digits n \<Longrightarrow> m = n"
  by (metis dec_value_dec_digits)

lemma put_int_inj: "put_int i = put_int j \<Longrightarrow> i = j"
proof -
  assume eq: "put_int i = put_int j"
  show ?thesis
  proof (cases "i < 0")
    case True
    note i = this
    show ?thesis
    proof (cases "j < 0")
      case True
      with i eq have "dec_digits (nat (- i)) = dec_digits (nat (- j))"
        by (simp add: put_int_def)
      then have "nat (- i) = nat (- j)" by (rule dec_digits_inj)
      with i True show ?thesis by simp
    next
      case False
      with i eq show ?thesis
        using no_minus_dec_digits [of _ "nat j"] by (simp add: put_int_def)
    qed
  next
    case False
    note i = this
    show ?thesis
    proof (cases "j < 0")
      case True
      with i eq show ?thesis
        using dec_digits_no_minus [of "nat i"] by (simp add: put_int_def)
    next
      case False
      with i eq have "dec_digits (nat i) = dec_digits (nat j)"
        by (simp add: put_int_def)
      then have "nat i = nat j" by (rule dec_digits_inj)
      with i False show ?thesis by simp
    qed
  qed
qed

subsection \<open>The paths through the constructor of prng_engine\<close>

lemma prng_engine_ctor_create_fails:
  assumes "rocrand_create_generator bk t (bstate w) = ((s0, g), b1)"
    and "s0 \<noteq> ROCRAND_STATUS_SUCCESS bk"
  shows "prng_engine_ctor bk t sv ov w =
           (Thrown (error_ctor s0), \<lparr>bstate = b1, trace = trace w @ [Create_generator t]\<rparr>)"
  using assms by (simp add: prng_engine_ctor_def rng_engine_ctor_eq)

lemma prng_engine_ctor_seed_fails:
  assumes "rocrand_create_generator bk t (bstate w) = ((ROCRAND_STATUS_SUCCESS bk, g), b1)"
    and "rocrand_set_seed bk g sv b1 = (s1, b2)"
    and "s1 \<noteq> ROCRAND_STATUS_SUCCESS bk"
    and "rocrand_destroy_generator bk g b2 = (s2, b3)"
  shows "prng_engine_ctor bk t sv ov w =
           (if s2 = ROCRAND_STATUS_SUCCESS bk then Thrown (error_ctor s1) else Terminated,
            \<lparr>bstate = b3,
             trace = trace w @ [Create_generator t, Set_seed g sv, Destroy_generator g]\<rparr>)"
  using assms
  by (simp add: prng_engine_ctor_def rng_engine_ctor_eq prng_engine_ctor_body_def
      prng_engine_seed_eq rng_engine_dtor_eq throw_unless_success_def)

lemma prng_engine_ctor_offset_fails:
  assumes "rocrand_create_generator bk t (bstate w) = ((ROCRAND_STATUS_SUCCESS bk, g), b1)"
    and "rocrand_set_seed bk g sv b1 = (ROCRAND_STATUS_SUCCESS bk, b2)"
    and "0 < ov"
    and "rocrand_set_offset bk g ov b2 = (s2, b3)"
    and "s2 \<noteq> ROCRAND_STATUS_SUCCESS bk"
    and "rocrand_destroy_generator bk g b3 = (s3, b4)"
  shows "prng_engine_ctor bk t sv ov w =
           (if s3 = ROCRAND_STATUS_SUCCESS bk then Thrown (error_ctor s2) else Terminated,
            \<lparr>bstate = b4,
             trace = trace w @ [Create_generator t, Set_seed g sv, Set_offset g ov,
                                Destroy_generator g]\<rparr>)"
  using assms
  by (simp add: prng_engine_ctor_def rng_engine_ctor_eq prng_engine_ctor_body_def
      prng_engine_seed_eq prng_engine_offset_eq rng_engine_dtor_eq throw_unless_success_def)

lemma prng_engine_ctor_no_offset:
  assumes "rocrand_create_generator bk t (bstate w) = ((ROCRAND_STATUS_SUCCESS bk, g), b1)"
    and "rocrand_set_seed bk g sv b1 = (ROCRAND_STATUS_SUCCESS bk, b2)"
    and "ov = 0"
  shows "prng_engine_ctor bk t sv ov w =
           (Returned \<lparr>m_generator = g\<rparr>,
            \<lparr>bstate = b2, trace = trace w @ [Create_generator t, Set_seed g sv]\<rparr>)"
  using assms
  by (simp add: prng_engine_ctor_def rng_engine_ctor_eq prng_engine_ctor_body_def
      prng_engine_seed_eq throw_unless_success_def)

lemma prng_engine_ctor_with_offset:
  assumes "rocrand_create_generator bk t (bstate w) = ((ROCRAND_STATUS_SUCCESS bk, g), b1)"
    and "rocrand_set_seed bk g sv b1 = (ROCRAND_STATUS_SUCCESS bk, b2)"
    and "0 < ov"
    and "rocrand_set_offset bk g ov b2 = (ROCRAND_STATUS_SUCCESS bk, b3)"
  shows "prng_engine_ctor bk t sv ov w =
           (Returned \<lparr>m_generator = g\<rparr>,
            \<lparr>bstate = b3,
             trace = trace w @ [Create_generator t, Set_seed g sv, Set_offset g ov]\<rparr>)"
  using assms
  by (simp add: prng_engine_ctor_def rng_engine_ctor_eq prng_engine_ctor_body_def
      prng_engine_seed_eq prng_engine_offset_eq throw_unless_success_def)

lemma engine_new_eq:
  "engine_new c bk args w =
     prng_engine_ctor bk (engine_rng_type c) (seed_argument (engine_default_seed c bk) args)
       (offset_argument args) w"
  by (cases c)
     (simp_all add: engine_new_def engine_rng_type_def engine_default_seed_def
        philox4x32_10_engine_def xorwow_engine_def mrg32k3a_engine_def prng_engine_new_def)

text \<open>The calls the constructor makes, by the statuses the backend returns.\<close>

lemma prng_engine_ctor_calls:
  assumes c: "rocrand_create_generator bk t (bstate w) = ((s0, g), b1)"
    and s: "rocrand_set_seed bk g sv b1 = (s1, b2)"
    and off: "rocrand_set_offset bk g ov b2 = (s3, b4)"
  shows "new_calls w (snd (prng_engine_ctor bk t sv ov w)) =
     (if s0 \<noteq> ROCRAND_STATUS_SUCCESS bk then [Create_generator t]
      else if s1 \<noteq> ROCRAND_STATUS_SUCCESS bk
        then [Create_generator t, Set_seed g sv, Destroy_generator g]
      else if ov = 0 then [Create_generator t, Set_seed g sv]
      else if s3 \<noteq> ROCRAND_STATUS_SUCCESS bk
        then [Create_generator t, Set_seed g sv, Set_offset g ov, Destroy_generator g]
      else [Create_generator t, Set_seed g sv, Set_offset g ov])"
proof -
  obtain s2 b3 where d: "rocrand_destroy_generator bk g b2 = (s2, b3)" by (metis prod.exhaust)
  obtain s4 b5 where d': "rocrand_destroy_generator bk g b4 = (s4, b5)" by (metis prod.exhaust)
  consider "s0 \<noteq> ROCRAND_STATUS_SUCCESS bk"
    | "s0 = ROCRAND_STATUS_SUCCESS bk" "s1 \<noteq> ROCRAND_STATUS_SUCCESS bk"
    | "s0 = ROCRAND_STATUS_SUCCESS bk" "s1 = ROCRAND_STATUS_SUCCESS bk" "ov = 0"
    | "s0 = ROCRAND_STATUS_SUCCESS bk" "s1 = ROCRAND_STATUS_SUCCESS bk" "0 < ov"
      "s3 \<noteq> ROCRAND_STATUS_SUCCESS bk"
    | "s0 = ROCRAND_STATUS_SUCCESS bk" "s1 = ROCRAND_STATUS_SUCCESS bk" "0 < ov"
      "s3 = ROCRAND_STATUS_SUCCESS bk"
    using word_gt_0 by blast
  then show ?thesis
  proof cases
    case 1
    with c show ?thesis
      by (simp add: prng_engine_ctor_create_fails [of bk t w s0 g b1] new_calls_append)
  next
    case 2
    with c s d show ?thesis
      by (simp add: prng_engine_ctor_seed_fails [of bk t w g b1 sv s1 b2 s2 b3] new_calls_append)
  next
    case 3
    with c s show ?thesis
      by (simp add: prng_engine_ctor_no_offset [of bk t w g b1 sv b2] new_calls_append)
  next
    case 4
    with c s off d' show ?thesis
      by (simp add: prng_engine_ctor_offset_fails [of bk t w g b1 sv b2 ov s3 b4 s4 b5]
          new_calls_append)
  next
    case 5
    with c s off show ?thesis
      by (simp add: prng_engine_ctor_with_offset [of bk t w g b1 sv b2 ov b4] new_calls_append)
  qed
qed

text \<open>The outcome of the constructor, by the statuses the backend returns.\<close>

lemma prng_engine_ctor_outcome:
  assumes c: "rocrand_create_generator bk t (bstate w) = ((s0, g), b1)"
    and s: "rocrand_set_seed bk g sv b1 = (s1, b2)"
    and off: "rocrand_set_offset bk g ov b2 = (s3, b4)"
  shows "fst (prng_engine_ctor bk t sv ov w) =
     (if s0 \<noteq> ROCRAND_STATUS_SUCCESS bk then Thrown (error_ctor s0)
      else if s1 \<noteq> ROCRAND_STATUS_SUCCESS bk
        then (if fst (rocrand_destroy_generator bk g b2) = ROCRAND_STATUS_SUCCESS bk
              then Thrown (error_ctor s1) else Terminated)
      else if ov = 0 then Returned \<lparr>m_generator = g\<rparr>
      else if s3 \<noteq> ROCRAND_STATUS_SUCCESS bk
        then (if fst (rocrand_destroy_generator bk g b4) = ROCRAND_STATUS_SUCCESS bk
              then Thrown (error_ctor s3) else Terminated)
      else Returned \<lparr>m_generator = g\<rparr>)"
proof -
  obtain s2 b3 where d: "rocrand_destroy_generator bk g b2 = (s2, b3)" by (metis prod.exhaust)
  obtain s4 b5 where d': "rocrand_destroy_generator bk g b4 = (s4, b5)" by (metis prod.exhaust)
  consider "s0 \<noteq> ROCRAND_STATUS_SUCCESS bk"
    | "s0 = ROCRAND_STATUS_SUCCESS bk" "s1 \<noteq> ROCRAND_STATUS_SUCCESS bk"
    | "s0 = ROCRAND_STATUS_SUCCESS bk" "s1 = ROCRAND_STATUS_SUCCESS bk" "ov = 0"
    | "s0 = ROCRAND_STATUS_SUCCESS bk" "s1 = ROCRAND_STATUS_SUCCESS bk" "0 < ov"
      "s3 \<noteq> ROCRAND_STATUS_SUCCESS bk"
    | "s0 = ROCRAND_STATUS_SUCCESS bk" "s1 = ROCRAND_STATUS_SUCCESS bk" "0 < ov"
      "s3 = ROCRAND_STATUS_SUCCESS bk"
    using word_gt_0 by blast
  then show ?thesis
  proof cases
    case 1
    with c show ?thesis
      by (simp add: prng_engine_ctor_create_fails [of bk t w s0 g b1])
  next
    case 2
    with c s d show ?thesis
      by (simp add: prng_engine_ctor_seed_fails [of bk t w g b1 sv s1 b2 s2 b3])
  next
    case 3
    with c s show ?thesis
      by (simp add: prng_engine_ctor_no_offset [of bk t w g b1 sv b2])
  next
    case 4
    with c s off d' show ?thesis
      by (simp add: prng_engine_ctor_offset_fails [of bk t w g b1 sv b2 ov s3 b4 s4 b5])
  next
    case 5
    with c s off show ?thesis
      by (simp add: prng_engine_ctor_with_offset [of bk t w g b1 sv b2 ov b4])
  qed
qed

section \<open>The claims\<close>

text \<open>
  C1 as stated fails for the construction of an engine, which makes more than one backend
  call. With the seed refused (status 4) the constructor throws although
  \<open>rocrand_create_generator\<close> returned success. And with the release refused as well
  (status 9) no error with code 4 is thrown.
\<close>

theorem backend_status_counterexample:
  "fst (fst (rocrand_create_generator scripted (engine_rng_type Mrg32k3a_engine)
              (bstate (start [0, 4])))) = ROCRAND_STATUS_SUCCESS scripted
   \<and> thrown_code (fst (engine_new Mrg32k3a_engine scripted (Seed 9) (start [0, 4]))) = Some 4
   \<and> fst (rocrand_set_seed scripted 7 9 [4, 9]) = 4
   \<and> thrown_code (fst (engine_new Mrg32k3a_engine scripted (Seed 9) (start [0, 4, 9]))) = None"
  by (simp add: engine_new_def mrg32k3a_engine_def prng_engine_new_def prng_engine_ctor_def
      rng_engine_ctor_def prng_engine_ctor_body_def prng_engine_seed_def
      rng_engine_dtor_def rng_engine_dtor_body_def noexcept_def issue_eq
      throw_unless_success_def seed_argument_def offset_argument_def thrown_code_def
      error_code_error_ctor engine_rng_type_def scripted_def start_def reply_def)

text \<open>
  C1, amended. Every member function that wraps one call of the C interface (the
  constructor of \<open>rng_engine\<close>, \<open>stream\<close>, \<open>seed\<close>, \<open>offset\<close> and \<open>operator()\<close> of each
  distribution, for each element type) propagates the status of that call: when the
  status is not success the function throws an error whose \<open>error_code()\<close> is that status,
  and when it is success the function returns.

  The constructor of each of the three engines calls \<open>rocrand_create_generator\<close>, then
  \<open>rocrand_set_seed\<close>, then, for a positive offset, \<open>rocrand_set_offset\<close>. It throws an
  error whose code is the status of the first of these calls that does not return
  success, for a refused seed or offset when the release made while unwinding returns
  success; and it returns the engine with the created handle when each call returns
  success.
\<close>

theorem backend_status_is_propagated:
  "propagates bk (fst (fst (rocrand_create_generator bk t (bstate w))))
     (fst (rng_engine_ctor bk t w))
   \<and> propagates bk (fst (rocrand_set_stream bk (m_generator e) st (bstate w)))
     (fst (rng_engine_stream bk e st w))
   \<and> propagates bk (fst (rocrand_set_seed bk (m_generator e) sv (bstate w)))
     (fst (prng_engine_seed bk e sv w))
   \<and> propagates bk (fst (rocrand_set_offset bk (m_generator e) ov (bstate w)))
     (fst (prng_engine_offset bk e ov w))
   \<and> propagates bk (fst (rocrand_generate bk (m_generator e) p n (bstate w)))
     (fst (uniform_int_distribution_apply bk ui e p n w))
   \<and> propagates bk (fst (rocrand_generate_uniform bk (m_generator e) p n (bstate w)))
     (fst (uniform_real_distribution_float_apply bk ur e p n w))
   \<and> propagates bk (fst (rocrand_generate_uniform_double bk (m_generator e) p n (bstate w)))
     (fst (uniform_real_distribution_double_apply bk ur e p n w))
   \<and> propagates bk
     (fst (rocrand_generate_normal bk (m_generator e) p n (normal_distribution_mean nf)
             (normal_distribution_stddev nf) (bstate w)))
     (fst (normal_distribution_float_apply bk nf e p n w))
   \<and> propagates bk
     (fst (rocrand_generate_normal_double bk (m_generator e) p n (normal_distribution_mean nd)
             (normal_distribution_stddev nd) (bstate w)))
     (fst (normal_distribution_double_apply bk nd e p n w))
   \<and> (let ((s0, g), b1) = rocrand_create_generator bk (engine_rng_type c) (bstate w);
           (s1, b2) = rocrand_set_seed bk g (seed_argument (engine_default_seed c bk) args) b1;
           (s2, b3) = rocrand_set_offset bk g (offset_argument args) b2
       in (s0 \<noteq> ROCRAND_STATUS_SUCCESS bk \<longrightarrow>
             thrown_code (fst (engine_new c bk args w)) = Some s0)
        \<and> (s0 = ROCRAND_STATUS_SUCCESS bk \<and> s1 \<noteq> ROCRAND_STATUS_SUCCESS bk
             \<and> fst (rocrand_destroy_generator bk g b2) = ROCRAND_STATUS_SUCCESS bk \<longrightarrow>
             thrown_code (fst (engine_new c bk args w)) = Some s1)
        \<and> (s0 = ROCRAND_STATUS_SUCCESS bk \<and> s1 = ROCRAND_STATUS_SUCCESS bk
             \<and> 0 < offset_argument args \<and> s2 \<noteq> ROCRAND_STATUS_SUCCESS bk
             \<and> fst (rocrand_destroy_generator bk g b3) = ROCRAND_STATUS_SUCCESS bk \<longrightarrow>
             thrown_code (fst (engine_new c bk args w)) = Some s2)
        \<and> (s0 = ROCRAND_STATUS_SUCCESS bk \<and> s1 = ROCRAND_STATUS_SUCCESS bk
             \<and> (offset_argument args = 0 \<or> s2 = ROCRAND_STATUS_SUCCESS bk) \<longrightarrow>
             fst (engine_new c bk args w) = Returned \<lparr>m_generator = g\<rparr>))"
proof (intro conjI)
  show "propagates bk (fst (fst (rocrand_create_generator bk t (bstate w))))
     (fst (rng_engine_ctor bk t w))"
    by (simp add: rng_engine_ctor_def issue_eq propagates_def thrown_code_def
        error_code_error_ctor split: prod.splits)
  show "propagates bk (fst (rocrand_set_stream bk (m_generator e) st (bstate w)))
     (fst (rng_engine_stream bk e st w))"
    by (simp add: rng_engine_stream_def issue_eq propagates_throw_unless_success)
  show "propagates bk (fst (rocrand_set_seed bk (m_generator e) sv (bstate w)))
     (fst (prng_engine_seed bk e sv w))"
    by (simp add: prng_engine_seed_def issue_eq propagates_throw_unless_success)
  show "propagates bk (fst (rocrand_set_offset bk (m_generator e) ov (bstate w)))
     (fst (prng_engine_offset bk e ov w))"
    by (simp add: prng_engine_offset_def issue_eq propagates_throw_unless_success)
  show "propagates bk (fst (rocrand_generate bk (m_generator e) p n (bstate w)))
     (fst (uniform_int_distribution_apply bk ui e p n w))"
    by (simp add: uniform_int_distribution_apply_def issue_eq propagates_throw_unless_success)
  show "propagates bk (fst (rocrand_generate_uniform bk (m_generator e) p n (bstate w)))
     (fst (uniform_real_distribution_float_apply bk ur e p n w))"
    by (simp add: uniform_real_distribution_float_apply_def
        uniform_real_distribution_generate_float_def issue_eq propagates_throw_unless_success)
  show "propagates bk (fst (rocrand_generate_uniform_double bk (m_generator e) p n (bstate w)))
     (fst (uniform_real_distribution_double_apply bk ur e p n w))"
    by (simp add: uniform_real_distribution_double_apply_def
        uniform_real_distribution_generate_double_def issue_eq propagates_throw_unless_success)
  show "propagates bk
     (fst (rocrand_generate_normal bk (m_generator e) p n (normal_distribution_mean nf)
             (normal_distribution_stddev nf) (bstate w)))
     (fst (normal_distribution_float_apply bk nf e p n w))"
    by (simp add: normal_distribution_float_apply_def
        normal_distribution_generate_float_def issue_eq propagates_throw_unless_success)
  show "propagates bk
     (fst (rocrand_generate_normal_double bk (m_generator e) p n (normal_distribution_mean nd)
             (normal_distribution_stddev nd) (bstate w)))
     (fst (normal_distribution_double_apply bk nd e p n w))"
    by (simp add: normal_distribution_double_apply_def
        normal_distribution_generate_double_def issue_eq propagates_throw_unless_success)
  show "let ((s0, g), b1) = rocrand_create_generator bk (engine_rng_type c) (bstate w);
           (s1, b2) = rocrand_set_seed bk g (seed_argument (engine_default_seed c bk) args) b1;
           (s2, b3) = rocrand_set_offset bk g (offset_argument args) b2
       in (s0 \<noteq> ROCRAND_STATUS_SUCCESS bk \<longrightarrow>
             thrown_code (fst (engine_new c bk args w)) = Some s0)
        \<and> (s0 = ROCRAND_STATUS_SUCCESS bk \<and> s1 \<noteq> ROCRAND_STATUS_SUCCESS bk
             \<and> fst (rocrand_destroy_generator bk g b2) = ROCRAND_STATUS_SUCCESS bk \<longrightarrow>
             thrown_code (fst (engine_new c bk args w)) = Some s1)
        \<and> (s0 = ROCRAND_STATUS_SUCCESS bk \<and> s1 = ROCRAND_STATUS_SUCCESS bk
             \<and> 0 < offset_argument args \<and> s2 \<noteq> ROCRAND_STATUS_SUCCESS bk
             \<and> fst (rocrand_destroy_generator bk g b3) = ROCRAND_STATUS_SUCCESS bk \<longrightarrow>
             thrown_code (fst (engine_new c bk args w)) = Some s2)
        \<and> (s0 = ROCRAND_STATUS_SUCCESS bk \<and> s1 = ROCRAND_STATUS_SUCCESS bk
             \<and> (offset_argument args = 0 \<or> s2 = ROCRAND_STATUS_SUCCESS bk) \<longrightarrow>
             fst (engine_new c bk args w) = Returned \<lparr>m_generator = g\<rparr>)"
  proof -
    obtain s0 g b1 where
      c: "rocrand_create_generator bk (engine_rng_type c) (bstate w) = ((s0, g), b1)"
      by (metis prod.exhaust)
    obtain s1 b2 where
      s: "rocrand_set_seed bk g (seed_argument (engine_default_seed c bk) args) b1 = (s1, b2)"
      by (metis prod.exhaust)
    obtain s2 b3 where
      off: "rocrand_set_offset bk g (offset_argument args) b2 = (s2, b3)"
      by (metis prod.exhaust)
    have pos: "0 < offset_argument args \<Longrightarrow> offset_argument args \<noteq> 0"
      by simp
    show ?thesis
      using pos
      by (auto simp add: c s off engine_new_eq prng_engine_ctor_outcome [OF c s off]
          thrown_code_def error_code_error_ctor)
  qed
qed

text \<open>On the example backend: \<open>seed\<close> refused and accepted, and four constructions (the
  creation refused; the seed refused; the offset refused; each call accepted).\<close>

theorem backend_status_is_propagated_witness:
  "thrown_code (fst (prng_engine_seed scripted \<lparr>m_generator = 7\<rparr> 1 (start [5]))) = Some 5
   \<and> propagates scripted 0 (fst (prng_engine_seed scripted \<lparr>m_generator = 7\<rparr> 1 (start [0])))
   \<and> thrown_code (fst (engine_new Xorwow_engine scripted No_arguments (start [3]))) = Some 3
   \<and> thrown_code (fst (engine_new Xorwow_engine scripted No_arguments (start [0, 4, 0]))) =
       Some 4
   \<and> thrown_code (fst (engine_new Xorwow_engine scripted (Seed_offset 5 6)
        (start [0, 0, 8, 0]))) = Some 8
   \<and> fst (engine_new Xorwow_engine scripted (Seed_offset 5 6) (start [])) =
       Returned \<lparr>m_generator = 7\<rparr>"
  using backend_status_is_propagated
      [where bk = scripted and w = "start [5]" and e = "\<lparr>m_generator = 7\<rparr>" and sv = 1]
    backend_status_is_propagated
      [where bk = scripted and w = "start [0]" and e = "\<lparr>m_generator = 7\<rparr>" and sv = 1]
    backend_status_is_propagated
      [where bk = scripted and w = "start [3]" and c = Xorwow_engine and args = No_arguments]
    backend_status_is_propagated
      [where bk = scripted and w = "start [0, 4, 0]" and c = Xorwow_engine
         and args = No_arguments]
    backend_status_is_propagated
      [where bk = scripted and w = "start [0, 0, 8, 0]" and c = Xorwow_engine
         and args = "Seed_offset 5 6"]
    backend_status_is_propagated
      [where bk = scripted and w = "start []" and c = Xorwow_engine
         and args = "Seed_offset 5 6"]
  by (simp add: propagates_def scripted_def start_def reply_def engine_rng_type_def
      seed_argument_def offset_argument_def)

text \<open>
  C8. For every status, \<open>to_string\<close> gives the fallback string around the code, the
  constructor of \<open>error\<close> stores that string, and \<open>error_string()\<close> and \<open>what()\<close> return it.
  The code is written as its decimal numeral: for a code that is not negative the
  characters between the parentheses are decimal digits, without a leading zero unless
  the code is 0, and they denote the code; a negative code is written as a minus sign and
  the numeral of its absolute value. So different codes have different messages.
\<close>

theorem error_message_is_generic:
  "to_string status = ''Unknown rocRAND Error ('' @ put_int status @ '')''
   \<and> error_string (error_ctor status) = to_string status
   \<and> what (error_ctor status) = to_string status
   \<and> (0 \<le> status \<longrightarrow>
        set (put_int status) \<subseteq> set ''0123456789''
        \<and> int (dec_value (put_int status)) = status
        \<and> (0 < status \<longrightarrow> hd (put_int status) \<noteq> CHR ''0''))
   \<and> (status < 0 \<longrightarrow> put_int status = CHR ''-'' # put_int (- status))
   \<and> (to_string status = to_string status' \<longrightarrow> status = status')
   \<and> to_string 0 = ''Unknown rocRAND Error (0)''
   \<and> to_string 101 = ''Unknown rocRAND Error (101)''"
proof (intro conjI impI)
  show "to_string status = ''Unknown rocRAND Error ('' @ put_int status @ '')''"
    by (simp add: to_string_def)
  show "error_string (error_ctor status) = to_string status"
    by (simp add: error_string_def error_ctor_def)
  show "what (error_ctor status) = to_string status"
    by (simp add: what_def error_ctor_def)
  show "set (put_int status) \<subseteq> set ''0123456789''" if "0 \<le> status"
    using that dec_digits_are_digits [of "nat status"] by (simp add: put_int_def)
  show "int (dec_value (put_int status)) = status" if "0 \<le> status"
    using that by (rule dec_value_put_int)
  show "hd (put_int status) \<noteq> CHR ''0''" if "0 < status"
    using that dec_digits_no_leading_zero [of "nat status"] by (simp add: put_int_def)
  show "put_int status = CHR ''-'' # put_int (- status)" if "status < 0"
    using that by (simp add: put_int_def)
  show "status = status'" if "to_string status = to_string status'"
    using that by (simp add: to_string_def put_int_inj)
  show "to_string 0 = ''Unknown rocRAND Error (0)''"
    by code_simp
  show "to_string 101 = ''Unknown rocRAND Error (101)''"
    by code_simp
qed

theorem error_message_is_generic_witness:
  "(0 :: int) < 404
   \<and> what (error_ctor 404) = ''Unknown rocRAND Error (404)''
   \<and> int (dec_value (put_int 404)) = 404
   \<and> hd (put_int 404) \<noteq> CHR ''0''
   \<and> (- 3 :: int) < 0
   \<and> error_string (error_ctor (- 3)) = ''Unknown rocRAND Error (-3)''"
proof -
  have a: "put_int 404 = ''404''" and b: "put_int 3 = ''3''"
    by code_simp+
  show ?thesis
    using error_message_is_generic [of 404 404] error_message_is_generic [of "- 3" "- 3"]
    by (simp add: a b)
qed

text \<open>
  C9. \<open>reset()\<close> of each distribution returns without a backend call and leaves the world
  and the object as they were; in particular the parameters of a normal distribution are
  the same after \<open>reset()\<close>, and are those last stored by \<open>param(params)\<close>.
\<close>

theorem reset_changes_nothing:
  "uniform_int_distribution_reset ui w = (Returned ui, w)
   \<and> uniform_real_distribution_reset ur w = (Returned ur, w)
   \<and> normal_distribution_reset nd w = (Returned nd, w)
   \<and> new_calls w (snd (uniform_int_distribution_reset ui w)) = []
   \<and> new_calls w (snd (uniform_real_distribution_reset ur w)) = []
   \<and> new_calls w (snd (normal_distribution_reset nd w)) = []
   \<and> fst (normal_distribution_reset (normal_distribution_set_param nd params) w) =
       Returned (normal_distribution_set_param nd params)
   \<and> normal_distribution_mean (normal_distribution_set_param nd params) = m_mean params
   \<and> normal_distribution_stddev (normal_distribution_set_param nd params) = m_stddev params"
  by (simp add: uniform_int_distribution_reset_def uniform_real_distribution_reset_def
      normal_distribution_reset_def new_calls_def normal_distribution_set_param_def
      normal_distribution_mean_def normal_distribution_stddev_def param_type_mean_def
      param_type_stddev_def)

text \<open>
  C6. \<open>operator()\<close> of \<open>normal_distribution<float>\<close> makes exactly one backend call,
  \<open>rocrand_generate_normal\<close>, and that of \<open>normal_distribution<double>\<close> exactly one,
  \<open>rocrand_generate_normal_double\<close>, each with the handle of the engine, the output
  pointer, the size and the mean and standard deviation the object holds at the call:
  those of the \<open>param_type\<close> last stored by \<open>param(params)\<close>.
\<close>

theorem normal_distribution_dispatch:
  "snd (normal_distribution_float_apply bk nf e p n w) =
     \<lparr>bstate = snd (rocrand_generate_normal bk (m_generator e) p n
                      (m_mean (m_params nf)) (m_stddev (m_params nf)) (bstate w)),
      trace = trace w @ [Generate_normal (m_generator e) p n
                           (m_mean (m_params nf)) (m_stddev (m_params nf))]\<rparr>
   \<and> snd (normal_distribution_double_apply bk nd e p n w) =
     \<lparr>bstate = snd (rocrand_generate_normal_double bk (m_generator e) p n
                      (m_mean (m_params nd)) (m_stddev (m_params nd)) (bstate w)),
      trace = trace w @ [Generate_normal_double (m_generator e) p n
                           (m_mean (m_params nd)) (m_stddev (m_params nd))]\<rparr>
   \<and> new_calls w (snd (normal_distribution_float_apply bk
                          (normal_distribution_set_param nf pf) e p n w)) =
       [Generate_normal (m_generator e) p n (m_mean pf) (m_stddev pf)]
   \<and> new_calls w (snd (normal_distribution_double_apply bk
                          (normal_distribution_set_param nd pd) e p n w)) =
       [Generate_normal_double (m_generator e) p n (m_mean pd) (m_stddev pd)]"
  by (simp add: normal_distribution_float_apply_def normal_distribution_double_apply_def
      normal_distribution_generate_float_def normal_distribution_generate_double_def
      issue_eq new_calls_def normal_distribution_set_param_def
      normal_distribution_mean_def normal_distribution_stddev_def param_type_mean_def
      param_type_stddev_def)

text \<open>
  C7. After \<open>param(p)\<close>, \<open>param()\<close> returns \<open>p\<close>: the same mean and the same standard
  deviation. \<open>operator==\<close> of \<open>param_type\<close> holds exactly when \<open>==\<close> holds of the two means
  and of the two standard deviations, and \<open>operator!=\<close> is its negation.
\<close>

theorem param_round_trip_and_equality:
  "normal_distribution_param (normal_distribution_set_param nd p) = p
   \<and> param_type_mean (normal_distribution_param (normal_distribution_set_param nd p)) =
       param_type_mean p
   \<and> param_type_stddev (normal_distribution_param (normal_distribution_set_param nd p)) =
       param_type_stddev p
   \<and> param_type_eq real_eq a b =
       (real_eq (param_type_mean a) (param_type_mean b)
        \<and> real_eq (param_type_stddev a) (param_type_stddev b))
   \<and> param_type_neq real_eq a b = (\<not> param_type_eq real_eq a b)
   \<and> param_type_eq (=) a b = (a = b)"
  by (auto simp add: normal_distribution_param_def normal_distribution_set_param_def
      param_type_eq_def param_type_neq_def param_type_mean_def param_type_stddev_def)

text \<open>
  C2. For each of the three engines: when \<open>rocrand_create_generator\<close> returns a status
  that is not success, the constructor throws an error with that status as its code, no
  engine object comes to exist, and the call of \<open>rocrand_create_generator\<close> is the only
  backend call made; no \<open>rocrand_destroy_generator\<close> follows.
\<close>

theorem create_failure_throws_and_destroys_nothing:
  assumes "rocrand_create_generator bk (engine_rng_type c) (bstate w) = ((status, g), b1)"
    and "status \<noteq> ROCRAND_STATUS_SUCCESS bk"
  shows "engine_new c bk args w =
           (Thrown (error_ctor status),
            \<lparr>bstate = b1, trace = trace w @ [Create_generator (engine_rng_type c)]\<rparr>)
         \<and> thrown_code (fst (engine_new c bk args w)) = Some status
         \<and> new_calls w (snd (engine_new c bk args w)) = [Create_generator (engine_rng_type c)]
         \<and> destroy_calls (new_calls w (snd (engine_new c bk args w))) = []"
  using assms
  by (simp add: engine_new_eq prng_engine_ctor_create_fails [of bk _ w status g b1]
      thrown_code_def error_code_error_ctor new_calls_def)

theorem create_failure_throws_and_destroys_nothing_witness:
  "rocrand_create_generator scripted (engine_rng_type Xorwow_engine) (bstate (start [3, 8])) =
     ((3, 7), [8])
   \<and> 3 \<noteq> ROCRAND_STATUS_SUCCESS scripted
   \<and> engine_new Xorwow_engine scripted (Seed_offset 5 6) (start [3, 8]) =
       (Thrown (error_ctor 3),
        \<lparr>bstate = [8], trace = [Create_generator ROCRAND_RNG_PSEUDO_XORWOW]\<rparr>)
   \<and> destroy_calls (new_calls (start [3, 8])
        (snd (engine_new Xorwow_engine scripted (Seed_offset 5 6) (start [3, 8])))) = []"
proof -
  have h1: "rocrand_create_generator scripted (engine_rng_type Xorwow_engine)
              (bstate (start [3, 8])) = ((3, 7), [8])"
    by (simp add: scripted_def start_def reply_def)
  have h2: "3 \<noteq> ROCRAND_STATUS_SUCCESS scripted"
    by (simp add: scripted_def)
  show ?thesis
    using h1 h2 create_failure_throws_and_destroys_nothing [OF h1 h2, of "Seed_offset 5 6"]
    by (simp add: engine_rng_type_def start_def new_calls_def)
qed





text \<open>
  C4 as stated fails where the constructor is left by an exception: when the creation
  fails no seed is set, and when setting the seed fails a positive offset is not set.
\<close>

theorem constructor_calls_counterexample:
  "seed_calls (new_calls (start [3])
     (snd (philox4x32_10_engine scripted No_arguments (start [3])))) = []
   \<and> (0 :: offset_type) < 6
   \<and> offset_calls (new_calls (start [0, 4])
       (snd (philox4x32_10_engine scripted (Seed_offset 5 6) (start [0, 4])))) = []"
  by (simp add: philox4x32_10_engine_def prng_engine_new_def prng_engine_ctor_def
      rng_engine_ctor_def prng_engine_ctor_body_def prng_engine_seed_def
      rng_engine_dtor_def rng_engine_dtor_body_def noexcept_def issue_eq
      throw_unless_success_def seed_argument_def offset_argument_def new_calls_def
      scripted_def start_def reply_def)

text \<open>
  C4, amended. For each of the three engines, when \<open>rocrand_create_generator\<close> succeeds:
  the constructor calls \<open>rocrand_set_seed\<close> exactly once, on the created handle, with the
  seed argument, which is the default seed constant of the engine when no argument is
  given. When the offset argument is zero (the default) \<open>rocrand_set_offset\<close> is not
  called. When the offset argument is positive and setting the seed succeeds,
  \<open>rocrand_set_offset\<close> is called exactly once, on the created handle, with that offset.
\<close>

theorem constructor_seed_and_offset_calls:
  assumes "rocrand_create_generator bk (engine_rng_type c) (bstate w) =
             ((ROCRAND_STATUS_SUCCESS bk, g), b1)"
  shows "seed_calls (new_calls w (snd (engine_new c bk args w))) =
           [(g, seed_argument (engine_default_seed c bk) args)]
         \<and> seed_calls (new_calls w (snd (engine_new c bk No_arguments w))) =
             [(g, engine_default_seed c bk)]
         \<and> (offset_argument args = 0 \<longrightarrow>
              offset_calls (new_calls w (snd (engine_new c bk args w))) = [])
         \<and> offset_calls (new_calls w (snd (engine_new c bk No_arguments w))) = []
         \<and> (0 < offset_argument args
              \<and> fst (rocrand_set_seed bk g (seed_argument (engine_default_seed c bk) args) b1) =
                  ROCRAND_STATUS_SUCCESS bk \<longrightarrow>
              offset_calls (new_calls w (snd (engine_new c bk args w))) =
                [(g, offset_argument args)])"
proof -
  have calls: "new_calls w (snd (engine_new c bk a w)) =
     (if fst (rocrand_set_seed bk g (seed_argument (engine_default_seed c bk) a) b1)
           \<noteq> ROCRAND_STATUS_SUCCESS bk
        then [Create_generator (engine_rng_type c),
              Set_seed g (seed_argument (engine_default_seed c bk) a), Destroy_generator g]
      else if offset_argument a = 0
        then [Create_generator (engine_rng_type c),
              Set_seed g (seed_argument (engine_default_seed c bk) a)]
      else if fst (rocrand_set_offset bk g (offset_argument a)
                (snd (rocrand_set_seed bk g (seed_argument (engine_default_seed c bk) a) b1)))
           \<noteq> ROCRAND_STATUS_SUCCESS bk
        then [Create_generator (engine_rng_type c),
              Set_seed g (seed_argument (engine_default_seed c bk) a),
              Set_offset g (offset_argument a), Destroy_generator g]
      else [Create_generator (engine_rng_type c),
            Set_seed g (seed_argument (engine_default_seed c bk) a),
            Set_offset g (offset_argument a)])" for a
    using prng_engine_ctor_calls [OF assms, of "seed_argument (engine_default_seed c bk) a"
        "fst (rocrand_set_seed bk g (seed_argument (engine_default_seed c bk) a) b1)"
        "snd (rocrand_set_seed bk g (seed_argument (engine_default_seed c bk) a) b1)"
        "offset_argument a"
        "fst (rocrand_set_offset bk g (offset_argument a)
               (snd (rocrand_set_seed bk g (seed_argument (engine_default_seed c bk) a) b1)))"
        "snd (rocrand_set_offset bk g (offset_argument a)
               (snd (rocrand_set_seed bk g (seed_argument (engine_default_seed c bk) a) b1)))"]
    by (simp add: engine_new_eq)
  have none: "seed_argument (engine_default_seed c bk) No_arguments = engine_default_seed c bk"
    "offset_argument No_arguments = 0"
    by (simp_all add: seed_argument_def offset_argument_def)
  show ?thesis
    by (simp add: calls none)
qed

theorem constructor_seed_and_offset_calls_witness:
  "rocrand_create_generator scripted (engine_rng_type Mrg32k3a_engine) (bstate (start [])) =
     ((ROCRAND_STATUS_SUCCESS scripted, 7), [])
   \<and> seed_calls (new_calls (start [])
        (snd (engine_new Mrg32k3a_engine scripted No_arguments (start [])))) = [(7, 33)]
   \<and> offset_calls (new_calls (start [])
        (snd (engine_new Mrg32k3a_engine scripted No_arguments (start [])))) = []
   \<and> seed_calls (new_calls (start [])
        (snd (engine_new Mrg32k3a_engine scripted (Seed_offset 5 6) (start [])))) = [(7, 5)]
   \<and> offset_calls (new_calls (start [])
        (snd (engine_new Mrg32k3a_engine scripted (Seed_offset 5 6) (start [])))) = [(7, 6)]"
proof -
  have h: "rocrand_create_generator scripted (engine_rng_type Mrg32k3a_engine)
             (bstate (start [])) = ((ROCRAND_STATUS_SUCCESS scripted, 7), [])"
    by (simp add: scripted_def start_def reply_def)
  show ?thesis
    using h constructor_seed_and_offset_calls [OF h, of "Seed_offset 5 6"]
    by (simp add: engine_default_seed_def seed_argument_def offset_argument_def
        scripted_def reply_def)
qed

text \<open>
  The paths of the constructor on which a configuration call fails. When \<open>rocrand_create_generator\<close>
  succeeds and then \<open>rocrand_set_seed\<close> fails, or \<open>rocrand_set_seed\<close> succeeds and
  \<open>rocrand_set_offset\<close>, called for a positive offset, fails, the constructor calls
  \<open>rocrand_destroy_generator\<close> exactly once, on the created handle, as its last backend
  call, whatever that call returns; and when it returns success the constructor throws an
  error whose code is the status of the failed configuration call.
\<close>

lemma configuration_failure_releases_once:
  assumes create: "rocrand_create_generator bk (engine_rng_type c) (bstate w) =
                     ((ROCRAND_STATUS_SUCCESS bk, g), b1)"
    and seed: "rocrand_set_seed bk g (seed_argument (engine_default_seed c bk) args) b1 =
                 (s1, b2)"
    and offset: "rocrand_set_offset bk g (offset_argument args) b2 = (s2, b3)"
  shows "(s1 \<noteq> ROCRAND_STATUS_SUCCESS bk \<longrightarrow>
            new_calls w (snd (engine_new c bk args w)) =
              [Create_generator (engine_rng_type c),
               Set_seed g (seed_argument (engine_default_seed c bk) args),
               Destroy_generator g]
          \<and> destroy_calls (new_calls w (snd (engine_new c bk args w))) = [g]
          \<and> (fst (rocrand_destroy_generator bk g b2) = ROCRAND_STATUS_SUCCESS bk \<longrightarrow>
               fst (engine_new c bk args w) = Thrown (error_ctor s1)
               \<and> thrown_code (fst (engine_new c bk args w)) = Some s1))
       \<and> (s1 = ROCRAND_STATUS_SUCCESS bk \<and> 0 < offset_argument args
            \<and> s2 \<noteq> ROCRAND_STATUS_SUCCESS bk \<longrightarrow>
            new_calls w (snd (engine_new c bk args w)) =
              [Create_generator (engine_rng_type c),
               Set_seed g (seed_argument (engine_default_seed c bk) args),
               Set_offset g (offset_argument args),
               Destroy_generator g]
          \<and> destroy_calls (new_calls w (snd (engine_new c bk args w))) = [g]
          \<and> (fst (rocrand_destroy_generator bk g b3) = ROCRAND_STATUS_SUCCESS bk \<longrightarrow>
               fst (engine_new c bk args w) = Thrown (error_ctor s2)
               \<and> thrown_code (fst (engine_new c bk args w)) = Some s2))"
proof -
  have pos: "0 < offset_argument args \<Longrightarrow> offset_argument args \<noteq> 0"
    by simp
  show ?thesis
    using pos
    by (auto simp add: engine_new_eq prng_engine_ctor_calls [OF create seed offset]
        prng_engine_ctor_outcome [OF create seed offset] thrown_code_def
        error_code_error_ctor)
qed

lemma configuration_failure_releases_once_examples:
  "fst (engine_new Philox4x32_10_engine scripted No_arguments (start [0, 4, 0])) =
     Thrown (error_ctor 4)
   \<and> destroy_calls (new_calls (start [0, 4, 0])
        (snd (engine_new Philox4x32_10_engine scripted No_arguments (start [0, 4, 0])))) = [7]
   \<and> fst (engine_new Xorwow_engine scripted (Seed_offset 5 6) (start [0, 0, 4, 0])) =
       Thrown (error_ctor 4)
   \<and> new_calls (start [0, 0, 4, 0])
        (snd (engine_new Xorwow_engine scripted (Seed_offset 5 6) (start [0, 0, 4, 0]))) =
       [Create_generator ROCRAND_RNG_PSEUDO_XORWOW, Set_seed 7 5, Set_offset 7 6,
        Destroy_generator 7]"
proof -
  have c1: "rocrand_create_generator scripted (engine_rng_type Philox4x32_10_engine)
              (bstate (start [0, 4, 0])) = ((ROCRAND_STATUS_SUCCESS scripted, 7), [4, 0])"
    by (simp add: scripted_def start_def reply_def)
  have s1: "rocrand_set_seed scripted 7
              (seed_argument (engine_default_seed Philox4x32_10_engine scripted) No_arguments)
              [4, 0] = (4, [0])"
    by (simp add: scripted_def reply_def)
  have o1: "rocrand_set_offset scripted 7 (offset_argument No_arguments) [0] = (0, [])"
    by (simp add: scripted_def reply_def)
  have c2: "rocrand_create_generator scripted (engine_rng_type Xorwow_engine)
              (bstate (start [0, 0, 4, 0])) = ((ROCRAND_STATUS_SUCCESS scripted, 7), [0, 4, 0])"
    by (simp add: scripted_def start_def reply_def)
  have s2: "rocrand_set_seed scripted 7
              (seed_argument (engine_default_seed Xorwow_engine scripted) (Seed_offset 5 6))
              [0, 4, 0] = (0, [4, 0])"
    by (simp add: scripted_def reply_def)
  have o2: "rocrand_set_offset scripted 7 (offset_argument (Seed_offset 5 6)) [4, 0] = (4, [0])"
    by (simp add: scripted_def reply_def)
  show ?thesis
    using configuration_failure_releases_once [OF c1 s1 o1]
      configuration_failure_releases_once [OF c2 s2 o2]
    by (simp add: scripted_def reply_def engine_rng_type_def seed_argument_def
        offset_argument_def)
qed

text \<open>
  C10 at the failing input. The creation succeeds, the seed is refused with status 4, and
  the destructor run while unwinding gets status 9 from \<open>rocrand_destroy_generator\<close> and
  throws: the construction ends in \<open>std::terminate\<close>, and no error with code 4 reaches the
  caller. The release was called once.
\<close>

theorem configuration_failure_with_release_failure:
  "fst (philox4x32_10_engine scripted No_arguments (start [0, 4, 9])) = Terminated
   \<and> thrown_code (fst (philox4x32_10_engine scripted No_arguments (start [0, 4, 9]))) \<noteq> Some 4
   \<and> trace (snd (philox4x32_10_engine scripted No_arguments (start [0, 4, 9]))) =
       [Create_generator ROCRAND_RNG_PSEUDO_PHILOX4_32_10, Set_seed 7 11, Destroy_generator 7]"
  by (simp add: philox4x32_10_engine_def prng_engine_new_def prng_engine_ctor_def
      rng_engine_ctor_def prng_engine_ctor_body_def prng_engine_seed_def
      rng_engine_dtor_def rng_engine_dtor_body_def noexcept_def issue_eq
      throw_unless_success_def seed_argument_def offset_argument_def thrown_code_def
      scripted_def start_def reply_def)

end
